theory Spec2Isabelle
  imports Complex_Main
begin

section \<open>Values, errors and the data dictionaries\<close>

text \<open>
  A Python float is a finite number, an infinity or NaN; \<^verbatim>\<open>float()\<close> reads all of them
  from the wire (\<^verbatim>\<open>nan\<close>, \<^verbatim>\<open>inf\<close>). The finite floats are modelled as \<^typ>\<open>real\<close>:
  arithmetic between finite values is exact, without rounding and without overflow.
  The infinities and NaN follow the rules of the floating-point operations: NaN
  propagates, every comparison with NaN is false, \<open>inf - inf\<close>, \<open>inf * 0\<close> and
  \<open>inf / inf\<close> are NaN. Zeros carry no sign (no operation below tells them apart).
\<close>

datatype pyfloat = Fin real | PInf | NInf | NaN

text \<open>
  The client (\<^verbatim>\<open>snakeoil.PY\<close>) keeps the server's telemetry in a dictionary
  \<^verbatim>\<open>ServerState.d\<close> whose values are what \<^verbatim>\<open>destringify\<close> returns: a float, a
  string (a token that \<^verbatim>\<open>float()\<close> rejected) or a list of such values.
  Every exception the code can raise is a constructor of \<open>error\<close>; a function that can
  raise returns \<open>error + 'a\<close> with the exception on the left. An exception leaves the
  function at once and nothing in the client catches it, so no state is returned with it.
\<close>

datatype val = Num pyfloat | Str string | Lst "val list"

datatype error = KeyError | TypeError | IndexError | ZeroDivisionError | ValueError
  | OverflowError | NotAscii

type_synonym dict = "string \<rightharpoonup> val"

definition bind :: "error + 'a \<Rightarrow> ('a \<Rightarrow> error + 'b) \<Rightarrow> error + 'b" where
  "bind m f = (case m of Inl e \<Rightarrow> Inl e | Inr x \<Rightarrow> f x)"

section \<open>Float operations\<close>

text \<open>\<^verbatim>\<open>-a\<close> and \<^verbatim>\<open>abs(a)\<close>.\<close>

fun fneg :: "pyfloat \<Rightarrow> pyfloat" where
  "fneg (Fin x) = Fin (- x)"
| "fneg PInf = NInf"
| "fneg NInf = PInf"
| "fneg NaN = NaN"

fun fabs :: "pyfloat \<Rightarrow> pyfloat" where
  "fabs (Fin x) = Fin \<bar>x\<bar>"
| "fabs PInf = PInf"
| "fabs NInf = PInf"
| "fabs NaN = NaN"

text \<open>\<^verbatim>\<open>a < b\<close>, \<^verbatim>\<open>a <= b\<close>: false when either side is NaN.\<close>

fun flt :: "pyfloat \<Rightarrow> pyfloat \<Rightarrow> bool" where
  "flt (Fin x) (Fin y) = (x < y)"
| "flt (Fin x) PInf = True"
| "flt (Fin x) NInf = False"
| "flt PInf b = False"
| "flt NInf (Fin y) = True"
| "flt NInf PInf = True"
| "flt NInf NInf = False"
| "flt a NaN = False"
| "flt NaN b = False"

definition fle :: "pyfloat \<Rightarrow> pyfloat \<Rightarrow> bool" where
  "fle a b \<longleftrightarrow> a \<noteq> NaN \<and> b \<noteq> NaN \<and> \<not> flt b a"

text \<open>\<^verbatim>\<open>a + b\<close> and \<^verbatim>\<open>a - b\<close>.\<close>

fun fadd :: "pyfloat \<Rightarrow> pyfloat \<Rightarrow> pyfloat" where
  "fadd (Fin x) (Fin y) = Fin (x + y)"
| "fadd NaN b = NaN"
| "fadd a NaN = NaN"
| "fadd PInf NInf = NaN"
| "fadd NInf PInf = NaN"
| "fadd PInf b = PInf"
| "fadd a PInf = PInf"
| "fadd NInf b = NInf"
| "fadd a NInf = NInf"

definition fsub :: "pyfloat \<Rightarrow> pyfloat \<Rightarrow> pyfloat" where
  "fsub a b = fadd a (fneg b)"

text \<open>
  \<^verbatim>\<open>a * b\<close>: with an infinity, NaN against zero and else the infinity of the product's
  sign.
\<close>

definition fmul :: "pyfloat \<Rightarrow> pyfloat \<Rightarrow> pyfloat" where
  "fmul a b =
     (case (a, b) of
        (Fin x, Fin y) \<Rightarrow> Fin (x * y)
      | _ \<Rightarrow> if a = NaN \<or> b = NaN \<or> a = Fin 0 \<or> b = Fin 0 then NaN
             else if flt (Fin 0) a = flt (Fin 0) b then PInf else NInf)"

text \<open>
  \<^verbatim>\<open>a / b\<close>: a zero divisor raises \<^verbatim>\<open>ZeroDivisionError\<close>, whatever the dividend; a
  finite value over an infinity is zero, an infinity over an infinity is NaN.
\<close>

definition fdiv :: "pyfloat \<Rightarrow> pyfloat \<Rightarrow> error + pyfloat" where
  "fdiv a b =
     (if b = Fin 0 then Inl ZeroDivisionError
      else Inr (case (a, b) of
                  (Fin x, Fin y) \<Rightarrow> Fin (x / y)
                | (Fin x, _) \<Rightarrow> if b = NaN then NaN else Fin 0
                | _ \<Rightarrow> if a = NaN \<or> b = NaN \<or> b = PInf \<or> b = NInf then NaN
                       else if flt (Fin 0) a = flt (Fin 0) b then PInf else NInf))"

text \<open>\<^verbatim>\<open>math.sin(a)\<close>: an infinity raises \<^verbatim>\<open>ValueError\<close> (math domain error).\<close>

fun fsin :: "pyfloat \<Rightarrow> error + pyfloat" where
  "fsin (Fin x) = Inr (Fin (sin x))"
| "fsin NaN = Inr NaN"
| "fsin PInf = Inl ValueError"
| "fsin NInf = Inl ValueError"

definition clip :: "pyfloat \<Rightarrow> pyfloat \<Rightarrow> pyfloat \<Rightarrow> pyfloat" where
  "clip v lo hi = (if flt v lo then lo else if flt hi v then hi else v)"

section \<open>Reading the dictionary\<close>

text \<open>\<^verbatim>\<open>S[k]\<close>: a missing key raises \<^verbatim>\<open>KeyError\<close>.\<close>

definition getitem :: "dict \<Rightarrow> string \<Rightarrow> error + val" where
  "getitem S k = (case S k of None \<Rightarrow> Inl KeyError | Some v \<Rightarrow> Inr v)"

text \<open>
  A value used where the code computes with a number (\<^verbatim>\<open>>=\<close> against a number,
  \<^verbatim>\<open>*\<close> by a float, \<^verbatim>\<open>math.sin\<close>): a string or a list raises \<^verbatim>\<open>TypeError\<close> there.
\<close>

definition number :: "val \<Rightarrow> error + pyfloat" where
  "number v = (case v of Num x \<Rightarrow> Inr x | _ \<Rightarrow> Inl TypeError)"

text \<open>
  \<^verbatim>\<open>int(v)\<close>: a finite float is truncated toward zero, NaN raises \<^verbatim>\<open>ValueError\<close> and
  an infinity \<^verbatim>\<open>OverflowError\<close>; a list raises \<^verbatim>\<open>TypeError\<close>; a string in the
  dictionary is a token that \<^verbatim>\<open>float()\<close> rejected (or the empty string), and
  \<^verbatim>\<open>int()\<close> rejects those too, with \<^verbatim>\<open>ValueError\<close>.
\<close>

definition trunc :: "real \<Rightarrow> int" where
  "trunc x = (if 0 \<le> x then \<lfloor>x\<rfloor> else \<lceil>x\<rceil>)"

definition py_int :: "val \<Rightarrow> error + int" where
  "py_int v =
     (case v of
        Num x \<Rightarrow> (case x of Fin r \<Rightarrow> Inr (trunc r) | NaN \<Rightarrow> Inl ValueError
                   | _ \<Rightarrow> Inl OverflowError)
      | Str s \<Rightarrow> Inl ValueError
      | Lst xs \<Rightarrow> Inl TypeError)"

text \<open>\<^verbatim>\<open>xs[i]\<close> on a list: a negative index counts from the end, out of range raises.\<close>

definition index :: "'a list \<Rightarrow> int \<Rightarrow> error + 'a" where
  "index xs i =
     (if 0 \<le> i \<and> i < int (length xs) then Inr (xs ! nat i)
      else if i < 0 \<and> 0 \<le> i + int (length xs) then Inr (xs ! nat (i + int (length xs)))
      else Inl IndexError)"

section \<open>Gear policy\<close>

definition gearUp :: "int list" where
  "gearUp = [5000, 6000, 6000, 6500, 7000, 0]"

definition gearDown :: "int list" where
  "gearDown = [0, 2500, 3000, 3000, 3500, 3500]"

text \<open>
  \<^verbatim>\<open>get_gear(c)\<close> reads \<^verbatim>\<open>gear\<close> and \<^verbatim>\<open>rpm\<close> from the telemetry, converts both with
  \<^verbatim>\<open>int()\<close>, and looks the thresholds up in the two tables. The \<^verbatim>\<open>and\<close> of the source
  is short-circuit: the table is read only when the gear test before it holds.
\<close>

definition get_gear :: "dict \<Rightarrow> error + int" where
  "get_gear S =
     bind (getitem S ''gear'') (\<lambda>v. bind (py_int v) (\<lambda>g.
     bind (getitem S ''rpm'') (\<lambda>w. bind (py_int w) (\<lambda>rpm.
       if g < 1 then Inr 1
       else
         bind (if g < 6 then bind (index gearUp (g - 1)) (\<lambda>u. Inr (rpm \<ge> u))
               else Inr False) (\<lambda>up.
         if up then Inr (g + 1)
         else
           bind (if g > 1 then bind (index gearDown (g - 1)) (\<lambda>d. Inr (rpm \<le> d))
                 else Inr False) (\<lambda>down.
           if down then Inr (g - 1) else Inr g))))))"

section \<open>The driver's action and the controller memory\<close>

text \<open>
  \<^verbatim>\<open>DriverAction.d\<close> always holds the same seven keys, so it is a record; the four
  values the control loop computes are floats. The control loop keeps two values between
  ticks as attributes of \<^verbatim>\<open>drive_example\<close> (\<^verbatim>\<open>cur_time\<close>, \<^verbatim>\<open>prev_cur_time\<close>), and the
  two module-level PID controllers keep their own state. The module \<^verbatim>\<open>PID\<close> is not
  part of the source: the method \<^verbatim>\<open>output(measurement, a, b)\<close> is a parameter of the
  model, a function from the controller's state and the three arguments to the signal
  (any float) and the new state.
\<close>

record action =
  accel :: pyfloat
  brake :: pyfloat
  clutch :: pyfloat
  gear :: int
  steer :: pyfloat
  focus :: "int list"
  meta :: real

definition DriverAction :: action where
  "DriverAction = \<lparr>accel = Fin 0.2, brake = Fin 0, clutch = Fin 0, gear = 1, steer = Fin 0,
                     focus = [-90, -45, 0, 45, 90], meta = 0\<rparr>"

record 'p memory =
  cur_time :: val
  prev_cur_time :: val
  controllerofdistance :: 'p
  controllerofspeed :: 'p

type_synonym 'p pid = "'p \<Rightarrow> pyfloat \<Rightarrow> pyfloat \<Rightarrow> pyfloat \<Rightarrow> pyfloat \<times> 'p"

text \<open>The attributes as the first call creates them, with the two controllers given.\<close>

definition memory_init :: "'p \<Rightarrow> 'p \<Rightarrow> 'p memory" where
  "memory_init pd ps = \<lparr>cur_time = Num (Fin 0), prev_cur_time = Num (Fin (- 1)),
                          controllerofdistance = pd, controllerofspeed = ps\<rparr>"

definition Road_Width :: pyfloat where
  "Road_Width = Fin 20"

section \<open>Python operators on dictionary values\<close>

text \<open>\<^verbatim>\<open>v[i]\<close> for a constant \<open>i \<ge> 0\<close>: a float is not subscriptable, a string gives a
  one-character string, a list its element; both raise \<^verbatim>\<open>IndexError\<close> out of range.\<close>

definition subscript :: "val \<Rightarrow> nat \<Rightarrow> error + val" where
  "subscript v i =
     (case v of
        Num x \<Rightarrow> Inl TypeError
      | Str s \<Rightarrow> if i < length s then Inr (Str [s ! i]) else Inl IndexError
      | Lst xs \<Rightarrow> if i < length xs then Inr (xs ! i) else Inl IndexError)"

text \<open>\<^verbatim>\<open>a - b\<close>: defined between two floats only.\<close>

definition py_sub :: "val \<Rightarrow> val \<Rightarrow> error + pyfloat" where
  "py_sub a b = (case (a, b) of (Num x, Num y) \<Rightarrow> Inr (fsub x y) | _ \<Rightarrow> Inl TypeError)"

text \<open>\<^verbatim>\<open>v * 2\<close>: doubles a float, repeats a string or a list.\<close>

definition times2 :: "val \<Rightarrow> val" where
  "times2 v =
     (case v of Num x \<Rightarrow> Num (fmul x (Fin 2)) | Str s \<Rightarrow> Str (s @ s)
      | Lst xs \<Rightarrow> Lst (xs @ xs))"

text \<open>\<^verbatim>\<open>x / v\<close> with a float \<open>x\<close>: a string or a list raises \<^verbatim>\<open>TypeError\<close>.\<close>

definition divide_by :: "pyfloat \<Rightarrow> val \<Rightarrow> error + pyfloat" where
  "divide_by x v = (case v of Num y \<Rightarrow> fdiv x y | _ \<Rightarrow> Inl TypeError)"

text \<open>\<^verbatim>\<open>a > b\<close> between two strings: by code point, the longer wins on a common prefix.\<close>

fun str_gt :: "string \<Rightarrow> string \<Rightarrow> bool" where
  "str_gt [] ys = False"
| "str_gt (x # xs) [] = True"
| "str_gt (x # xs) (y # ys) =
     (if x = y then str_gt xs ys else (of_char y :: nat) < of_char x)"

text \<open>
  \<^verbatim>\<open>a == b\<close> between two values: NaN equals nothing, not even NaN; lists are equal when
  they have the same length and equal elements. (The values compared below come from
  two different datagrams, so they are never the same object.)
\<close>

fun py_eq :: "val \<Rightarrow> val \<Rightarrow> bool"
  and py_eq_list :: "val list \<Rightarrow> val list \<Rightarrow> bool" where
  "py_eq (Num a) (Num b) = (a \<noteq> NaN \<and> a = b)"
| "py_eq (Str a) (Str b) = (a = b)"
| "py_eq (Lst a) (Lst b) = py_eq_list a b"
| "py_eq (Num a) (Str b) = False"
| "py_eq (Num a) (Lst b) = False"
| "py_eq (Str a) (Num b) = False"
| "py_eq (Str a) (Lst b) = False"
| "py_eq (Lst a) (Num b) = False"
| "py_eq (Lst a) (Str b) = False"
| "py_eq_list [] [] = True"
| "py_eq_list [] (y # ys) = False"
| "py_eq_list (x # xs) [] = False"
| "py_eq_list (x # xs) (y # ys) = (py_eq x y \<and> py_eq_list xs ys)"

text \<open>
  \<^verbatim>\<open>a > b\<close> between two values: floats and strings compare with their own kind, lists
  compare at the first position where they differ (or by length); every other pair
  raises \<^verbatim>\<open>TypeError\<close>.
\<close>

fun py_gt :: "val \<Rightarrow> val \<Rightarrow> error + bool"
  and py_gt_list :: "val list \<Rightarrow> val list \<Rightarrow> error + bool" where
  "py_gt (Num a) (Num b) = Inr (flt b a)"
| "py_gt (Str a) (Str b) = Inr (str_gt a b)"
| "py_gt (Lst a) (Lst b) = py_gt_list a b"
| "py_gt (Num a) (Str b) = Inl TypeError"
| "py_gt (Num a) (Lst b) = Inl TypeError"
| "py_gt (Str a) (Num b) = Inl TypeError"
| "py_gt (Str a) (Lst b) = Inl TypeError"
| "py_gt (Lst a) (Num b) = Inl TypeError"
| "py_gt (Lst a) (Str b) = Inl TypeError"
| "py_gt_list [] ys = Inr False"
| "py_gt_list (x # xs) [] = Inr True"
| "py_gt_list (x # xs) (y # ys) = (if py_eq x y then py_gt_list xs ys else py_gt x y)"

section \<open>The control loop\<close>

text \<open>
  Lines 336 to 349 of \<^verbatim>\<open>drive_example\<close>: the steering value. The operands are evaluated
  in the source's order, so the first exception of the model is the first of the code.
  \<^verbatim>\<open>S['trackPos']\<close> and \<^verbatim>\<open>S['track']\<close> are read several times in the source; a read
  after the first cannot fail, and the model reads once. With a NaN \<^verbatim>\<open>trackPos\<close>
  neither test of lines 339 to 342 holds and \<^verbatim>\<open>distance_from_edge\<close> keeps its 0.
\<close>

definition distance_from_edge :: "pyfloat \<Rightarrow> pyfloat" where
  "distance_from_edge trackPos =
     (if fle (Fin 0) trackPos then fabs (fsub (Fin 1) trackPos)
      else if flt trackPos (Fin 0) then fabs (fadd (Fin (- 1)) trackPos)
      else Fin 0)"

definition steering :: "'p pid \<Rightarrow> 'p \<Rightarrow> dict \<Rightarrow> error + pyfloat \<times> 'p" where
  "steering output pd S =
     bind (getitem S ''angle'') (\<lambda>angle.
     bind (getitem S ''trackPos'') (\<lambda>tp. bind (number tp) (\<lambda>trackPos.
     bind (getitem S ''speedX'') (\<lambda>sx. bind (number sx) (\<lambda>speedX.
     bind (number angle) (\<lambda>a. bind (fsin a) (\<lambda>sin_angle.
       let dt = Fin 0.01;
           next_predicted_pos =
             fadd (distance_from_edge trackPos) (fmul (fmul speedX dt) sin_angle);
           (signal_pid_angle, pd') = output pd next_predicted_pos (Fin 1) (Fin 1.1)
       in
     bind (fdiv trackPos Road_Width) (\<lambda>c.
     bind (getitem S ''track'') (\<lambda>track.
     bind (subscript track 6) (\<lambda>t6. bind (subscript track 12) (\<lambda>t12.
     bind (py_sub t6 t12) (\<lambda>diff.
     bind (subscript track 9) (\<lambda>t9. bind (divide_by diff (times2 t9)) (\<lambda>q.
       Inr (clip (fneg (fsub signal_pid_angle (fadd c q))) (Fin (- 1)) (Fin 1), pd')
     ))))))))))))))"

text \<open>Lines 361 to 368: the throttle, with the speed controller's state.\<close>

definition throttle ::
    "'p pid \<Rightarrow> action \<Rightarrow> 'p \<Rightarrow> pyfloat \<Rightarrow> pyfloat \<Rightarrow> action \<times> 'p" where
  "throttle output R ps trackPos speedX =
     (if flt (fabs trackPos) (Fin 1) then
        (let (signal_pid_speed, ps') = output ps speedX (Fin 1) (Fin 1.1)
         in (R\<lparr>accel := clip (fadd (accel R) signal_pid_speed) (Fin 0) (Fin 1)\<rparr>, ps'))
      else (R\<lparr>accel := Fin 0.3\<rparr>, ps))"

definition clutching :: "action \<Rightarrow> action" where
  "clutching R =
     (if gear R < 2 then R\<lparr>clutch := Fin 0.5\<rparr>
      else R\<lparr>clutch := clip (fsub (clutch R) (Fin 0.02)) (Fin 0) (Fin 1)\<rparr>)"

text \<open>Lines 386 to 390: the new \<^verbatim>\<open>prev_cur_time\<close>.\<close>

definition update_prev_time :: "val \<Rightarrow> val \<Rightarrow> error + val" where
  "update_prev_time ct prev =
     bind (py_gt ct prev) (\<lambda>later.
       if later then Inr ct
       else bind (number ct) (\<lambda>t. Inr (Num (fsub t (Fin 0.022)))))"

text \<open>
  One tick: \<^verbatim>\<open>drive_example(c)\<close> with the action \<^verbatim>\<open>c.R.d\<close>, the memory and the
  telemetry \<^verbatim>\<open>c.S.d\<close>; it returns the action and the memory as the call leaves them.
  The guard \<^verbatim>\<open>prev_cur_time == -1\<close> holds of the float -1 only.
\<close>

definition drive_example ::
    "'p pid \<Rightarrow> action \<Rightarrow> 'p memory \<Rightarrow> dict \<Rightarrow> error + action \<times> 'p memory" where
  "drive_example output R M S =
     bind (getitem S ''curLapTime'') (\<lambda>ct.
     let M1 = M\<lparr>cur_time := ct\<rparr> in
     if prev_cur_time M1 = Num (Fin (- 1))
     then Inr (R, M1\<lparr>prev_cur_time := cur_time M1\<rparr>)
     else
       bind (steering output (controllerofdistance M1) S) (\<lambda>(st, pd').
       let M2 = M1\<lparr>controllerofdistance := pd'\<rparr>;
           R1 = R\<lparr>steer := st\<rparr>
       in
       bind (getitem S ''speedX'') (\<lambda>sx. bind (number sx) (\<lambda>speedX.
       if fle (Fin 0.04) (fabs (steer R1)) \<and> fle (Fin 100) speedX then
         Inr (R1\<lparr>clutch := clip (fadd (clutch R1) (Fin 0.001)) (Fin 0) (Fin 1),
                 brake := clip (fadd (brake R1) (Fin 0.0001)) (Fin 0) (Fin 1)\<rparr>, M2)
       else
         let R2 = (if fle (Fin 150) speedX
                   then R1\<lparr>clutch := clip (fadd (clutch R1) (Fin 0.001)) (Fin 0) (Fin 1),
                           brake := Fin 0\<rparr>
                   else R1\<lparr>clutch := Fin 0, brake := Fin 0\<rparr>)
         in
         bind (getitem S ''trackPos'') (\<lambda>tp. bind (number tp) (\<lambda>trackPos.
         let (R3, ps') = throttle output R2 (controllerofspeed M2) trackPos speedX;
             M3 = M2\<lparr>controllerofspeed := ps'\<rparr>
         in
         bind (get_gear S) (\<lambda>g.
         let R4 = clutching (R3\<lparr>gear := g\<rparr>) in
         bind (update_prev_time (cur_time M3) (prev_cur_time M3)) (\<lambda>t.
           Inr (R4, M3\<lparr>prev_cur_time := t\<rparr>)))))))))"


section \<open>The telemetry decoder\<close>

text \<open>
  \<^verbatim>\<open>ServerState.parse_server_str\<close> receives the datagram as bytes. A \<^typ>\<open>string\<close> is a
  list of 8-bit characters, so it models the bytes; after \<^verbatim>\<open>decode('utf-8')\<close> it models
  the text only when every byte is ASCII, and the model stops with \<open>NotAscii\<close> otherwise
  (there the code either raises \<^verbatim>\<open>UnicodeDecodeError\<close> or goes on with characters
  beyond ASCII, which the model does not follow).

  \<^verbatim>\<open>bytes.strip()\<close> removes the six ASCII blanks; \<^verbatim>\<open>str.strip()\<close> removes the characters
  with \<^verbatim>\<open>isspace()\<close>, which below 128 are those six and the separators 0x1C to 0x1F.
\<close>

definition bytes_space :: "char \<Rightarrow> bool" where
  "bytes_space c \<longleftrightarrow> c \<in> set [CHR 0x20, CHR 0x09, CHR 0x0A, CHR 0x0D, CHR 0x0B, CHR 0x0C]"

definition str_space :: "char \<Rightarrow> bool" where
  "str_space c \<longleftrightarrow> bytes_space c \<or> c \<in> set [CHR 0x1C, CHR 0x1D, CHR 0x1E, CHR 0x1F]"

text \<open>\<^verbatim>\<open>lstrip\<close>, \<^verbatim>\<open>rstrip\<close> and \<^verbatim>\<open>strip\<close>, for the set of characters to remove.\<close>

definition lstrip :: "(char \<Rightarrow> bool) \<Rightarrow> string \<Rightarrow> string" where
  "lstrip p s = dropWhile p s"

definition rstrip :: "(char \<Rightarrow> bool) \<Rightarrow> string \<Rightarrow> string" where
  "rstrip p s = rev (dropWhile p (rev s))"

definition strip :: "(char \<Rightarrow> bool) \<Rightarrow> string \<Rightarrow> string" where
  "strip p s = rstrip p (lstrip p s)"

definition ascii :: "string \<Rightarrow> bool" where
  "ascii s = list_all (\<lambda>c. (of_char c :: nat) < 128) s"

text \<open>
  \<^verbatim>\<open>s.split(sep)\<close> for a separator that is not empty: the text is cut at each occurrence
  of the separator, found from the left and not overlapping; \<open>acc\<close> holds the current
  field, reversed.
\<close>

fun split_from :: "string \<Rightarrow> string \<Rightarrow> string \<Rightarrow> string list" where
  "split_from sep acc [] = [rev acc]"
| "split_from sep acc (c # cs) =
     (if sep \<noteq> [] \<and> take (length sep) (c # cs) = sep
      then rev acc # split_from sep [] (drop (length sep) (c # cs))
      else split_from sep (c # acc) cs)"

definition py_split :: "string \<Rightarrow> string \<Rightarrow> string list" where
  "py_split s sep = split_from sep [] s"

text \<open>
  \<^verbatim>\<open>destringify\<close> on a string and on a list of strings. The builtin \<^verbatim>\<open>float\<close> is a
  parameter (it may return any float, NaN and the infinities too): \<open>None\<close> stands for
  its \<^verbatim>\<open>ValueError\<close>, after which the code prints a message and returns the string
  itself.
\<close>

definition destringify_str :: "(string \<Rightarrow> pyfloat option) \<Rightarrow> string \<Rightarrow> val" where
  "destringify_str float s =
     (if s = [] then Str s
      else case float s of Some x \<Rightarrow> Num x | None \<Rightarrow> Str s)"

definition destringify :: "(string \<Rightarrow> pyfloat option) \<Rightarrow> string list \<Rightarrow> val" where
  "destringify float s =
     (if s = [] then Lst []
      else if length s < 2 then destringify_str float (hd s)
      else Lst (map (destringify_str float) s))"

text \<open>The loop over the groups: \<^verbatim>\<open>w = i.split(' ')\<close>, then \<^verbatim>\<open>d[w[0]] = destringify(w[1:])\<close>.\<close>

fun store_groups :: "(string \<Rightarrow> pyfloat option) \<Rightarrow> dict \<Rightarrow> string list \<Rightarrow> error + dict" where
  "store_groups float d [] = Inr d"
| "store_groups float d (i # rest) =
     (case py_split i '' '' of
        [] \<Rightarrow> Inl IndexError
      | w0 # ws \<Rightarrow> store_groups float (d(w0 \<mapsto> destringify float ws)) rest)"

text \<open>
  \<^verbatim>\<open>parse_server_str\<close>, from the dictionary \<^verbatim>\<open>self.d\<close> before the call (the code never
  empties it) to the dictionary after it.
\<close>

definition parse_server_str ::
    "(string \<Rightarrow> pyfloat option) \<Rightarrow> dict \<Rightarrow> string \<Rightarrow> error + dict" where
  "parse_server_str float d server_string =
     (let servstr = butlast (strip bytes_space server_string) in
      if \<not> ascii servstr then Inl NotAscii
      else
        let sslisted = py_split (rstrip (\<lambda>c. c = CHR '')'') (lstrip (\<lambda>c. c = CHR ''('')
                         (strip str_space servstr))) '')(''
        in store_groups float d sslisted)"

section \<open>Notions the properties are stated with\<close>

text \<open>
  The gear policy in the specification's words: thresholds indexed by the current gear
  (1-based, the index kept within 1..6), gear 1 for a gear below 1, an upshift below
  gear 6 at or above the upshift threshold, else a downshift above gear 1 at or below the
  downshift threshold, else the gear unchanged. It is compared with \<open>get_gear\<close> below.
\<close>

definition selectGear :: "int \<Rightarrow> real \<Rightarrow> int" where
  "selectGear g rpm =
     (let i = nat (min 6 (max 1 g) - 1) in
      if g < 1 then 1
      else if g < 6 \<and> rpm \<ge> [5000, 6000, 6000, 6500, 7000] ! i then g + 1
      else if g > 1 \<and> rpm \<le> [0, 2500, 3000, 3000, 3500, 3500] ! i then g - 1
      else g)"

text \<open>
  The valid ranges of the four actuator values: \<open>in_interval lo hi x\<close> is \<open>lo \<le> x \<le> hi\<close> as
  the floats compare, which no NaN satisfies.
\<close>

definition in_interval :: "real \<Rightarrow> real \<Rightarrow> pyfloat \<Rightarrow> bool" where
  "in_interval lo hi x \<longleftrightarrow> fle (Fin lo) x \<and> fle x (Fin hi)"



text \<open>
  The dictionary of a telemetry message that carries the seven fields the control loop
  reads, all finite floats: angle, trackPos, speedX, the track rangefinders, gear, rpm
  and curLapTime. It serves to write concrete ticks.
\<close>

definition telemetry ::
    "real \<Rightarrow> real \<Rightarrow> real \<Rightarrow> real list \<Rightarrow> real \<Rightarrow> real \<Rightarrow> real \<Rightarrow> dict" where
  "telemetry a tp sx ts g r t =
     [''angle'' \<mapsto> Num (Fin a), ''trackPos'' \<mapsto> Num (Fin tp), ''speedX'' \<mapsto> Num (Fin sx),
      ''track'' \<mapsto> Lst (map (\<lambda>x. Num (Fin x)) ts), ''gear'' \<mapsto> Num (Fin g),
      ''rpm'' \<mapsto> Num (Fin r), ''curLapTime'' \<mapsto> Num (Fin t)]"

text \<open>
  A controller to write concrete ticks with: proportional, \<open>a * b * (1 - m)\<close> for the
  measurement \<open>m\<close>, with a state that counts its calls.
\<close>

definition proportional :: "nat pid" where
  "proportional p m a b = (fmul (fmul a b) (fsub (Fin 1) m), Suc p)"

text \<open>
  A well-formed message: groups \<open>(name v1 v2 ...)\<close> one after the other, where the name
  and the value tokens are not empty and hold ASCII characters other than blanks and
  parentheses. \<open>render\<close> writes the groups as the wire format has them.
\<close>

definition token_char :: "char \<Rightarrow> bool" where
  "token_char c \<longleftrightarrow>
     \<not> str_space c \<and> c \<noteq> CHR ''('' \<and> c \<noteq> CHR '')'' \<and> (of_char c :: nat) < 128"

definition wf_token :: "string \<Rightarrow> bool" where
  "wf_token t \<longleftrightarrow> t \<noteq> [] \<and> list_all token_char t"

definition wf_group :: "string \<times> string list \<Rightarrow> bool" where
  "wf_group g \<longleftrightarrow> wf_token (fst g) \<and> list_all wf_token (snd g)"

definition render_group :: "string \<times> string list \<Rightarrow> string" where
  "render_group g = ''('' @ fst g @ concat (map (\<lambda>t. CHR '' '' # t) (snd g)) @ '')''"

definition render :: "(string \<times> string list) list \<Rightarrow> string" where
  "render gs = concat (map render_group gs)"

text \<open>
  The value of a group in the specification's words: one token gives a scalar, two or
  more give a list, and a token that does not convert stays as the string it is. (For a
  group with no token the code stores the empty list.)
\<close>

definition token_value :: "(string \<Rightarrow> pyfloat option) \<Rightarrow> string \<Rightarrow> val" where
  "token_value float t = (case float t of Some x \<Rightarrow> Num x | None \<Rightarrow> Str t)"

definition group_value :: "(string \<Rightarrow> pyfloat option) \<Rightarrow> string list \<Rightarrow> val" where
  "group_value float ts =
     (case ts of [] \<Rightarrow> Lst [] | [t] \<Rightarrow> token_value float t
      | _ \<Rightarrow> Lst (map (token_value float) ts))"

text \<open>The strings \<open>xs\<close> with \<open>sep\<close> between them, to reason about \<open>py_split\<close>.\<close>

fun join :: "string \<Rightarrow> string list \<Rightarrow> string" where
  "join sep [] = []"
| "join sep [x] = x"
| "join sep (x # y # ys) = x @ sep @ join sep (y # ys)"

text \<open>
  A conversion to instantiate \<open>float\<close> in concrete messages: it reads the plain decimal
  literals, an optional minus sign, digits, and optionally a point and digits. (The
  builtin accepts more: exponents, \<^verbatim>\<open>inf\<close>, \<^verbatim>\<open>nan\<close>, surrounding blanks.)
\<close>

fun digits :: "nat \<Rightarrow> string \<Rightarrow> nat option" where
  "digits n [] = Some n"
| "digits n (c # cs) =
     (let k = (of_char c :: nat) in
      if 48 \<le> k \<and> k \<le> 57 then digits (10 * n + (k - 48)) cs else None)"

definition decimal :: "string \<Rightarrow> pyfloat option" where
  "decimal s =
     (let neg = (s \<noteq> [] \<and> hd s = CHR ''-'');
          body = (if neg then tl s else s);
          ip = takeWhile (\<lambda>c. c \<noteq> CHR ''.'') body;
          fp = drop (length ip + 1) body
      in if ip = [] \<or> (length ip < length body \<and> fp = []) then None
         else case (digits 0 ip, digits 0 fp) of
                (Some i, Some f) \<Rightarrow>
                  Some (Fin ((if neg then - 1 else 1) * (of_nat i + of_nat f / 10 ^ length fp)))
              | _ \<Rightarrow> None)"

section \<open>Basic facts\<close>

lemma bind_Inr [simp]: "bind (Inr x) f = f x"
  by (simp add: bind_def)

lemma bind_Inl [simp]: "bind (Inl e) f = Inl e"
  by (simp add: bind_def)

lemma bind_eq_Inr: "bind m f = Inr y \<longleftrightarrow> (\<exists>x. m = Inr x \<and> f x = Inr y)"
  by (cases m) simp_all

lemma getitem_Some [simp]: "S k = Some v \<Longrightarrow> getitem S k = Inr v"
  by (simp add: getitem_def)

lemma number_Num [simp]: "number (Num x) = Inr x"
  by (simp add: number_def)

lemma py_int_Fin [simp]: "py_int (Num (Fin x)) = Inr (trunc x)"
  by (simp add: py_int_def)

lemma trunc_of_int [simp]: "trunc (of_int k) = k"
  by (simp add: trunc_def)

lemma subscript_Lst [simp]: "i < length xs \<Longrightarrow> subscript (Lst xs) i = Inr (xs ! i)"
  by (simp add: subscript_def)

lemma py_sub_Num [simp]: "py_sub (Num x) (Num y) = Inr (fsub x y)"
  by (simp add: py_sub_def)

lemma fsub_Fin [simp]: "fsub (Fin x) (Fin y) = Fin (x - y)"
  by (simp add: fsub_def)

lemma fmul_Fin [simp]: "fmul (Fin x) (Fin y) = Fin (x * y)"
  by (simp add: fmul_def)

lemma fdiv_Fin [simp]:
  "fdiv (Fin x) (Fin y) = (if y = 0 then Inl ZeroDivisionError else Inr (Fin (x / y)))"
  by (simp add: fdiv_def)

lemma fle_Fin [simp]: "fle (Fin x) (Fin y) \<longleftrightarrow> x \<le> y"
  by (auto simp: fle_def)

lemma divide_by_Num [simp]: "divide_by x (times2 (Num y)) = fdiv x (fmul y (Fin 2))"
  by (simp add: divide_by_def times2_def)

lemma flt_NaN [simp]: "flt NaN b = False" "flt a NaN = False"
  by (cases b; simp) (cases a; simp)

lemma fle_NaN [simp]: "fle NaN b = False" "fle a NaN = False"
  by (simp_all add: fle_def)

lemma fadd_NaN [simp]: "fadd NaN b = NaN" "fadd a NaN = NaN"
  by simp (cases a; simp)

lemma fsub_NaN [simp]: "fsub NaN b = NaN" "fsub a NaN = NaN"
  by (simp_all add: fsub_def)

lemma fneg_eq_NaN [simp]: "fneg a = NaN \<longleftrightarrow> a = NaN"
  by (cases a) simp_all

lemma fabs_eq_NaN [simp]: "fabs a = NaN \<longleftrightarrow> a = NaN"
  by (cases a) simp_all


lemma clip_NaN [simp]: "clip NaN lo hi = NaN"
  by (simp add: clip_def)

lemma clip_Fin [simp]:
  "clip (Fin v) (Fin lo) (Fin hi) = Fin (if v < lo then lo else if v > hi then hi else v)"
  by (simp add: clip_def)



section \<open>The gear policy\<close>

lemma get_gear_in_table:
  assumes "S ''gear'' = Some (Num (Fin g))" "S ''rpm'' = Some (Num (Fin r))" "trunc g \<le> 6"
  shows "get_gear S = Inr (selectGear (trunc g) (of_int (trunc r)))"
proof -
  consider "trunc g < 1" | "trunc g = 1" | "trunc g = 2" | "trunc g = 3" | "trunc g = 4"
    | "trunc g = 5" | "trunc g = 6"
    using assms(3) by linarith
  then show ?thesis
    using assms(1,2)
    by cases (simp_all add: get_gear_def selectGear_def index_def gearUp_def gearDown_def)
qed

lemma selectGear_step: "1 \<le> k \<Longrightarrow> \<bar>selectGear k r - k\<bar> \<le> 1"
  by (simp add: selectGear_def Let_def)

lemma get_gear_above_table:
  assumes "S ''gear'' = Some (Num (Fin g))" "S ''rpm'' = Some (Num (Fin r))" "7 \<le> trunc g"
  shows "get_gear S = Inl IndexError"
  using assms by (simp add: get_gear_def index_def gearDown_def)

text \<open>
  C5. The claim: for every integer gear in 1..6 and every rpm value, \<open>get_gear\<close> returns
  gear+1 when gear < 6 and rpm is at or above the upshift threshold of the gear, else
  gear-1 when gear > 1 and rpm is at or below the downshift threshold, else the gear; a
  gear below 1 gives 1; (3, 7000) gives 4, (3, 2900) gives 2, (1, 0) gives 1; the result
  is at most one gear away from the input.

  The code compares \<^verbatim>\<open>int(S['rpm'])\<close>, the rpm truncated toward zero, and telemetry
  values are floats. With gear 2 and rpm 2500.5 the rpm is above the downshift threshold
  2500, so the claim holds the gear, while the code compares 2500 and shifts down.
\<close>

theorem get_gear_fractional_rpm:
  "get_gear [''gear'' \<mapsto> Num (Fin 2), ''rpm'' \<mapsto> Num (Fin 2500.5)] = Inr 1 \<and>
   selectGear 2 2500.5 = 2"
  by (simp add: get_gear_def selectGear_def index_def gearUp_def gearDown_def trunc_def)

text \<open>
  C5, amended: for every finite gear value whose truncation is at most 6 and every
  finite rpm value, \<open>get_gear\<close> returns what the claim's policy gives for the truncated
  gear and the truncated rpm (for an integer gear and an integer rpm, the claim as it
  stands); from gear 1 on, the result is at most one gear away from the input.
\<close>

theorem get_gear_policy:
  assumes "S ''gear'' = Some (Num (Fin g))" "S ''rpm'' = Some (Num (Fin r))" "trunc g \<le> 6"
  shows "get_gear S = Inr (selectGear (trunc g) (of_int (trunc r))) \<and>
         (1 \<le> trunc g \<longrightarrow> \<bar>selectGear (trunc g) (of_int (trunc r)) - trunc g\<bar> \<le> 1)"
  using get_gear_in_table [OF assms] selectGear_step by simp

theorem get_gear_policy_witness:
  "get_gear [''gear'' \<mapsto> Num (Fin 3), ''rpm'' \<mapsto> Num (Fin 7000)] = Inr 4 \<and>
   get_gear [''gear'' \<mapsto> Num (Fin 3), ''rpm'' \<mapsto> Num (Fin 2900)] = Inr 2 \<and>
   get_gear [''gear'' \<mapsto> Num (Fin 1), ''rpm'' \<mapsto> Num (Fin 0)] = Inr 1 \<and>
   get_gear [''gear'' \<mapsto> Num (Fin (- 1)), ''rpm'' \<mapsto> Num (Fin 9000)] = Inr 1 \<and>
   get_gear [''gear'' \<mapsto> Num (Fin 2), ''rpm'' \<mapsto> Num (Fin 2500.5)] = Inr 1"
  using
    get_gear_policy [of "[''gear'' \<mapsto> Num (Fin 3), ''rpm'' \<mapsto> Num (Fin 7000)]" 3 7000]
    get_gear_policy [of "[''gear'' \<mapsto> Num (Fin 3), ''rpm'' \<mapsto> Num (Fin 2900)]" 3 2900]
    get_gear_policy [of "[''gear'' \<mapsto> Num (Fin 1), ''rpm'' \<mapsto> Num (Fin 0)]" 1 0]
    get_gear_policy [of "[''gear'' \<mapsto> Num (Fin (- 1)), ''rpm'' \<mapsto> Num (Fin 9000)]" "- 1" 9000]
    get_gear_policy [of "[''gear'' \<mapsto> Num (Fin 2), ''rpm'' \<mapsto> Num (Fin 2500.5)]" 2 "2500.5"]
  by (simp add: selectGear_def trunc_def)

text \<open>
  C6. The claim: for every gear value in the telemetry, also above 6, the index into the
  threshold tables is clamped to 1..6, so the lookup is in bounds and a gear is returned.
  The code does not clamp: with gear 7 the upshift test is skipped (\<open>gear < 6\<close> fails),
  the downshift test reads \<^verbatim>\<open>gearDown[6]\<close> in a table of six entries, and the call
  raises \<^verbatim>\<open>IndexError\<close>, whatever the rpm.
\<close>

theorem get_gear_7_IndexError:
  "get_gear [''gear'' \<mapsto> Num (Fin 7), ''rpm'' \<mapsto> Num (Fin 3000)] = Inl IndexError"
  by (simp add: get_gear_def index_def gearDown_def trunc_def)

section \<open>One tick of the control loop\<close>

lemma fadd_Fin_not_NaN [simp]: "fadd a (Fin c) = NaN \<longleftrightarrow> a = NaN"
  by (cases a) simp_all

lemma fsub_Fin_not_NaN [simp]: "fsub a (Fin c) = NaN \<longleftrightarrow> a = NaN"
  by (simp add: fsub_def)

lemma in_interval_Fin [simp]: "in_interval lo hi (Fin r) \<longleftrightarrow> lo \<le> r \<and> r \<le> hi"
  by (simp add: in_interval_def)



lemma clutching_fields:
  "accel (clutching R) = accel R" "brake (clutching R) = brake R"
  "steer (clutching R) = steer R" "gear (clutching R) = gear R"
  by (simp_all add: clutching_def)


lemma throttle_fields:
  "brake (fst (throttle output R ps tp sx)) = brake R"
  "clutch (fst (throttle output R ps tp sx)) = clutch R"
  "steer (fst (throttle output R ps tp sx)) = steer R"
  "gear (fst (throttle output R ps tp sx)) = gear R"
  by (simp_all add: throttle_def Let_def split_beta)


lemma drive_example_first_tick:
  assumes "S ''curLapTime'' = Some ct" "prev_cur_time M = Num (Fin (- 1))"
  shows "drive_example output R M S = Inr (R, M\<lparr>cur_time := ct, prev_cur_time := ct\<rparr>)"
  using assms by (simp add: drive_example_def)

lemma drive_example_hard_cornering:
  assumes "S ''curLapTime'' = Some ct" "prev_cur_time M \<noteq> Num (Fin (- 1))"
    and "steering output (controllerofdistance M) S = Inr (st, pd')"
    and "S ''speedX'' = Some (Num sx)" "fle (Fin 0.04) (fabs st)" "fle (Fin 100) sx"
  shows "drive_example output R M S =
     Inr (R\<lparr>steer := st, clutch := clip (fadd (clutch R) (Fin 0.001)) (Fin 0) (Fin 1),
              brake := clip (fadd (brake R) (Fin 0.0001)) (Fin 0) (Fin 1)\<rparr>,
          M\<lparr>cur_time := ct, controllerofdistance := pd'\<rparr>)"
  using assms by (simp add: drive_example_def)

text \<open>The steering value of a tick past the first-tick guard is the one of lines 336 to 349.\<close>

lemma drive_example_steer:
  assumes "drive_example output R M S = Inr (R', M')" "prev_cur_time M \<noteq> Num (Fin (- 1))"
  shows "\<exists>pd'. steering output (controllerofdistance M) S = Inr (steer R', pd')"
  using assms
  by (auto simp: drive_example_def bind_eq_Inr Let_def split_beta clutching_fields
      throttle_fields(3) split: if_splits)





lemma distance_from_edge_Fin [simp]:
  "distance_from_edge (Fin tp) = Fin (if tp \<ge> 0 then \<bar>1 - tp\<bar> else \<bar>- 1 + tp\<bar>)"
  by (simp add: distance_from_edge_def)

lemma steering_numeric:
  assumes "S ''angle'' = Some (Num (Fin a))" "S ''trackPos'' = Some (Num (Fin tp))"
    and "S ''speedX'' = Some (Num (Fin sx))" "S ''track'' = Some (Lst ts)" "12 < length ts"
    and "ts ! 6 = Num (Fin t6)" "ts ! 12 = Num (Fin t12)" "ts ! 9 = Num (Fin t9)"
  defines "d \<equiv> (if tp \<ge> 0 then \<bar>1 - tp\<bar> else \<bar>- 1 + tp\<bar>)"
  shows "steering output pd S =
     (if t9 = 0 then Inl ZeroDivisionError
      else Inr (clip (fneg (fsub (fst (output pd (Fin (d + sx * 0.01 * sin a)) (Fin 1) (Fin 1.1)))
                                 (Fin (tp / 20 + (t6 - t12) / (2 * t9))))) (Fin (- 1)) (Fin 1),
                snd (output pd (Fin (d + sx * 0.01 * sin a)) (Fin 1) (Fin 1.1))))"
  using assms(1-8)
  by (simp add: steering_def Let_def split_beta Road_Width_def mult.commute d_def)

text \<open>The clipped steering value, by the kind of float the controller returns.\<close>

lemma clip_steer:
  "clip (fneg (fsub L (Fin C))) (Fin (- 1)) (Fin 1) =
     (case L of Fin l \<Rightarrow> Fin (max (- 1) (min 1 (- (l - C))))
      | PInf \<Rightarrow> Fin (- 1) | NInf \<Rightarrow> Fin 1 | NaN \<Rightarrow> NaN)"
  by (cases L) (auto simp: fsub_def clip_def)

text \<open>A tick past the guard on finite telemetry whose forward rangefinder reads zero.\<close>

lemma drive_example_zero_division:
  assumes "S ''curLapTime'' = Some ct" "prev_cur_time M \<noteq> Num (Fin (- 1))"
    and "S ''angle'' = Some (Num (Fin a))" "S ''trackPos'' = Some (Num (Fin tp))"
    and "S ''speedX'' = Some (Num (Fin sx))" "S ''track'' = Some (Lst ts)" "12 < length ts"
    and "ts ! 6 = Num (Fin t6)" "ts ! 12 = Num (Fin t12)" "ts ! 9 = Num (Fin 0)"
  shows "drive_example output R M S = Inl ZeroDivisionError"
  using assms(1,2) steering_numeric [OF assms(3-10), of "output" "controllerofdistance M"]
  by (simp add: drive_example_def)

subsection \<open>Concrete ticks\<close>


lemma ex_steering:
  "steering proportional 0
     (telemetry 0 0 120 [0, 0, 0, 0, 0, 0, 10, 0, 0, 1, 0, 0, 0] 3 4000 2) = Inr (Fin 1, 1)"
  by (simp add: steering_def telemetry_def proportional_def Road_Width_def Let_def)

lemma ex_hard:
  "drive_example proportional DriverAction
       \<lparr>cur_time = Num (Fin 1), prev_cur_time = Num (Fin 1), controllerofdistance = 0,
        controllerofspeed = 0\<rparr>
       (telemetry 0 0 120 [0, 0, 0, 0, 0, 0, 10, 0, 0, 1, 0, 0, 0] 3 4000 2) =
      Inr (DriverAction\<lparr>steer := Fin 1, clutch := Fin 0.001, brake := Fin 0.0001\<rparr>,
           \<lparr>cur_time = Num (Fin 2), prev_cur_time = Num (Fin 1), controllerofdistance = 1,
        controllerofspeed = 0\<rparr>)"
  by (simp add: drive_example_def ex_steering) (simp add: telemetry_def DriverAction_def)

lemma ex_hyps:
  "telemetry 0 0 120 [0, 0, 0, 0, 0, 0, 10, 0, 0, 1, 0, 0, 0] 3 4000 2 ''curLapTime''
     = Some (Num (Fin 2))"
  "telemetry 0 0 120 [0, 0, 0, 0, 0, 0, 10, 0, 0, 1, 0, 0, 0] 3 4000 2 ''speedX''
     = Some (Num (Fin 120))"
  by (simp_all add: telemetry_def)







section \<open>Properties of the control loop\<close>




text \<open>
  C2. The claim: the step guards the division by the forward rangefinder \<open>track[9]\<close>, so
  a record with \<open>track[9] = 0\<close> still yields a steering value. The code divides by
  \<^verbatim>\<open>S['track'][9]*2\<close> with no test: on such a record the tick raises
  \<^verbatim>\<open>ZeroDivisionError\<close> before steer is assigned (\<open>drive_example_zero_division\<close> has
  it for every record of finite values); here it is on one record.
\<close>

theorem track9_zero_division:
  "drive_example proportional DriverAction
       \<lparr>cur_time = Num (Fin 1), prev_cur_time = Num (Fin 1), controllerofdistance = 0,
        controllerofspeed = 0\<rparr>
       (telemetry 0 0 50 [3, 3, 3, 3, 3, 3, 3, 3, 3, 0, 3, 3, 3] 3 4000 2)
     = Inl ZeroDivisionError"
  by (simp add: drive_example_def telemetry_def steering_def Let_def proportional_def
      Road_Width_def)

text \<open>
  C3. On a tick past the first-tick guard whose telemetry has finite angle, trackPos and
  speedX and finite rangefinders 6, 9 and 12, with \<open>track[9] \<noteq> 0\<close>, the steering
  computation returns \<open>-(L - C)\<close> clamped to [-1, 1], and a tick that returns has that
  steer: \<open>d\<close> is the distance from the edge, \<open>L\<close> the output of the lateral controller
  (scale arguments 1 and 1.1) on the predicted position, \<open>C\<close> the curvature correction.
  The clamp is written out: for a finite \<open>L\<close> the value is \<open>max (-1) (min 1 (-(L - C)))\<close>,
  an infinite \<open>L\<close> gives the bound on the other side, and a NaN \<open>L\<close> gives NaN.
\<close>

theorem steer_formula:
  assumes "S ''angle'' = Some (Num (Fin a))" "S ''trackPos'' = Some (Num (Fin tp))"
    and "S ''speedX'' = Some (Num (Fin sx))" "S ''track'' = Some (Lst ts)" "12 < length ts"
    and "ts ! 6 = Num (Fin t6)" "ts ! 12 = Num (Fin t12)" "ts ! 9 = Num (Fin t9)" "t9 \<noteq> 0"
    and "prev_cur_time M \<noteq> Num (Fin (- 1))"
  shows "let d = (if tp \<ge> 0 then \<bar>1 - tp\<bar> else \<bar>- 1 + tp\<bar>);
             L = fst (output (controllerofdistance M) (Fin (d + sx * 0.01 * sin a))
                        (Fin 1) (Fin 1.1));
             C = tp / 20 + (t6 - t12) / (2 * t9);
             v = (case L of Fin l \<Rightarrow> Fin (max (- 1) (min 1 (- (l - C))))
                  | PInf \<Rightarrow> Fin (- 1) | NInf \<Rightarrow> Fin 1 | NaN \<Rightarrow> NaN)
         in (\<exists>pd'. steering output (controllerofdistance M) S = Inr (v, pd')) \<and>
            (\<forall>R R' M'. drive_example output R M S = Inr (R', M') \<longrightarrow> steer R' = v)"
proof -
  define d where "d = (if tp \<ge> 0 then \<bar>1 - tp\<bar> else \<bar>- 1 + tp\<bar>)"
  define L where "L = fst (output (controllerofdistance M) (Fin (d + sx * 0.01 * sin a))
                        (Fin 1) (Fin 1.1))"
  define C where "C = tp / 20 + (t6 - t12) / (2 * t9)"
  define v where "v = (case L of Fin l \<Rightarrow> Fin (max (- 1) (min 1 (- (l - C))))
                  | PInf \<Rightarrow> Fin (- 1) | NInf \<Rightarrow> Fin 1 | NaN \<Rightarrow> NaN)"
  have st: "steering output (controllerofdistance M) S =
      Inr (v, snd (output (controllerofdistance M) (Fin (d + sx * 0.01 * sin a))
                     (Fin 1) (Fin 1.1)))"
    unfolding v_def L_def C_def d_def
    using steering_numeric [OF assms(1-8), of "output" "controllerofdistance M"] assms(9)
    by (simp add: clip_steer)
  have "steer R' = v"
    if "drive_example output R M S = Inr (R', M')" for R R' M'
    using drive_example_steer [OF that assms(10)] st by auto
  with st have "(\<exists>pd'. steering output (controllerofdistance M) S = Inr (v, pd')) \<and>
      (\<forall>R R' M'. drive_example output R M S = Inr (R', M') \<longrightarrow> steer R' = v)"
    by blast
  then show ?thesis
    unfolding Let_def v_def L_def C_def d_def .
qed

text \<open>
  The instance: \<open>d = 1\<close>, \<open>L = 0\<close>, \<open>C = 5\<close>, so \<open>-(L - C) = 5\<close>, above the range, and
  the steer is 1.
\<close>

theorem steer_formula_witness:
  "\<exists>R' M'. drive_example proportional DriverAction
       \<lparr>cur_time = Num (Fin 1), prev_cur_time = Num (Fin 1), controllerofdistance = 0,
        controllerofspeed = 0\<rparr>
       (telemetry 0 0 120 [0, 0, 0, 0, 0, 0, 10, 0, 0, 1, 0, 0, 0] 3 4000 2) = Inr (R', M')
     \<and> steer R' = Fin 1 \<and> - (0 - (0 / 20 + (10 - 0) / (2 * 1))) = (5::real)"
proof -
  let ?S = "telemetry 0 0 120 [0, 0, 0, 0, 0, 0, 10, 0, 0, 1, 0, 0, 0] 3 4000 2"
  let ?M = "\<lparr>cur_time = Num (Fin 1), prev_cur_time = Num (Fin 1),
        controllerofdistance = 0::nat, controllerofspeed = 0::nat\<rparr>"
  let ?ts = "map (\<lambda>x. Num (Fin x)) [0, 0, 0, 0, 0, 0, 10, 0, 0, 1, 0, 0, 0]"
  have h: "?S ''angle'' = Some (Num (Fin 0))" "?S ''trackPos'' = Some (Num (Fin 0))"
    "?S ''speedX'' = Some (Num (Fin 120))" "?S ''track'' = Some (Lst ?ts)"
    by (simp_all add: telemetry_def)
  have t: "12 < length ?ts" "?ts ! 6 = Num (Fin 10)" "?ts ! 12 = Num (Fin 0)"
    "?ts ! 9 = Num (Fin 1)"
    by simp_all
  have m: "(1::real) \<noteq> 0" "prev_cur_time ?M \<noteq> Num (Fin (- 1))"
    by simp_all
  note th = steer_formula [OF h t m, of proportional]
  have "steer R' = Fin 1"
    if "drive_example proportional R ?M ?S = Inr (R', M')" for R R' M'
    using th that by (auto simp add: Let_def proportional_def)
  with ex_hard show ?thesis by auto
qed



text \<open>
  C7. On the first tick, when \<open>prev_cur_time\<close> is -1, the tick stores the telemetry's
  curLapTime in \<open>prev_cur_time\<close> (and in \<open>cur_time\<close>) and returns the action as it was,
  whatever else the telemetry holds.
\<close>

theorem first_tick_guard:
  assumes "S ''curLapTime'' = Some ct" "prev_cur_time M = Num (Fin (- 1))"
  shows "drive_example output R M S = Inr (R, M\<lparr>cur_time := ct, prev_cur_time := ct\<rparr>)"
  using assms by (rule drive_example_first_tick)

theorem first_tick_guard_witness:
  "drive_example proportional DriverAction (memory_init 0 0)
     (telemetry 0.3 0.5 80 [5, 5, 5, 5, 5, 5, 5, 5, 5, 5, 5, 5, 5] 2 5000 7.5) =
   Inr (DriverAction, \<lparr>cur_time = Num (Fin 7.5), prev_cur_time = Num (Fin 7.5),
        controllerofdistance = 0, controllerofspeed = 0\<rparr>)"
  using first_tick_guard [of
      "telemetry 0.3 0.5 80 [5, 5, 5, 5, 5, 5, 5, 5, 5, 5, 5, 5, 5] 2 5000 7.5"
      "Num (Fin 7.5)" "memory_init 0 0" proportional DriverAction]
  by (simp add: telemetry_def memory_init_def)

text \<open>
  C10. On a tick that takes the hard-cornering path, \<open>prev_cur_time\<close> is left as it was
  before the tick (only \<open>cur_time\<close> takes the telemetry's curLapTime).
\<close>

theorem hard_cornering_keeps_prev_time:
  assumes "S ''curLapTime'' = Some ct" "prev_cur_time M \<noteq> Num (Fin (- 1))"
    and "steering output (controllerofdistance M) S = Inr (st, pd')"
    and "S ''speedX'' = Some (Num sx)" "fle (Fin 0.04) (fabs st)" "fle (Fin 100) sx"
  shows "\<exists>R' M'. drive_example output R M S = Inr (R', M') \<and>
      prev_cur_time M' = prev_cur_time M \<and> cur_time M' = ct"
  using drive_example_hard_cornering [OF assms] by simp

theorem hard_cornering_keeps_prev_time_witness:
  "\<exists>R' M'. drive_example proportional DriverAction
       \<lparr>cur_time = Num (Fin 1), prev_cur_time = Num (Fin 1), controllerofdistance = 0,
        controllerofspeed = 0\<rparr>
       (telemetry 0 0 120 [0, 0, 0, 0, 0, 0, 10, 0, 0, 1, 0, 0, 0] 3 4000 2) = Inr (R', M') \<and>
     prev_cur_time M' = Num (Fin 1) \<and> cur_time M' = Num (Fin 2)"
  using hard_cornering_keeps_prev_time [OF ex_hyps(1) _ _ ex_hyps(2), of
      "\<lparr>cur_time = Num (Fin 1), prev_cur_time = Num (Fin 1), controllerofdistance = 0::nat,
        controllerofspeed = 0::nat\<rparr>" proportional "Fin 1" 1 DriverAction]
  by (simp add: ex_steering)

section \<open>The decoder on well-formed messages\<close>

lemma split_from_field:
  assumes "sep \<noteq> []" "set x \<inter> set sep = {}"
  shows "split_from sep acc (x @ rest) = split_from sep (rev x @ acc) rest"
  using assms(2)
proof (induction x arbitrary: acc)
  case Nil
  then show ?case by simp
next
  case (Cons c x)
  from Cons.prems have c: "c \<notin> set sep" and x: "set x \<inter> set sep = {}"
    by auto
  have "take (length sep) (c # x @ rest) \<noteq> sep"
  proof
    assume eq: "take (length sep) (c # x @ rest) = sep"
    from assms(1) obtain s ss where sep: "sep = s # ss"
      by (cases sep) auto
    with eq have "s = c" by simp
    with sep c show False by simp
  qed
  then show ?case
    using Cons.IH [OF x] by simp
qed

lemma split_from_sep:
  assumes "sep \<noteq> []"
  shows "split_from sep acc (sep @ rest) = rev acc # split_from sep [] rest"
proof -
  from assms obtain s ss where sep: "sep = s # ss"
    by (cases sep) auto
  then show ?thesis by simp
qed

lemma split_join:
  "sep \<noteq> [] \<Longrightarrow> xs \<noteq> [] \<Longrightarrow> \<forall>x\<in>set xs. set x \<inter> set sep = {} \<Longrightarrow>
    split_from sep [] (join sep xs) = xs"
proof (induction sep xs rule: join.induct)
  case (1 sep)
  then show ?case by simp
next
  case (2 sep x)
  then show ?case
    using split_from_field [of sep x "[]" "[]"] by simp
next
  case (3 sep x y ys)
  then show ?case
    using split_from_field [of sep x "[]" "sep @ join sep (y # ys)"]
      split_from_sep [of sep "rev x" "join sep (y # ys)"]
    by simp
qed

lemma split_from_not_Nil: "split_from sep acc s \<noteq> []"
  by (induction sep acc s rule: split_from.induct) simp_all

lemma join_Cons: "join sep (x # ys) = x @ concat (map (\<lambda>t. sep @ t) ys)"
  by (induction ys arbitrary: x) simp_all

lemma render_group_join: "render_group (n, ts) = ''('' @ join '' '' (n # ts) @ '')''"
  by (simp add: render_group_def join_Cons)

lemma render_join:
  "gs \<noteq> [] \<Longrightarrow>
   render gs = ''('' @ join '')('' (map (\<lambda>g. join '' '' (fst g # snd g)) gs) @ '')''"
proof (induction gs rule: list_nonempty_induct)
  case (single g)
  then show ?case
    using render_group_join [of "fst g" "snd g"] by (simp add: render_def)
next
  case (cons g gs)
  then obtain h hs where "gs = h # hs"
    by (cases gs) auto
  with cons.IH show ?case
    using render_group_join [of "fst g" "snd g"] by (simp add: render_def)
qed

lemma lstrip_keep: "x \<noteq> [] \<Longrightarrow> \<not> p (hd x) \<Longrightarrow> lstrip p x = x"
  by (cases x) (simp_all add: lstrip_def)

lemma rstrip_keep: "x \<noteq> [] \<Longrightarrow> \<not> p (last x) \<Longrightarrow> rstrip p x = x"
  by (cases x rule: rev_cases) (simp_all add: rstrip_def)

lemma rstrip_drop: "p c \<Longrightarrow> rstrip p (x @ [c]) = rstrip p x"
  by (simp add: rstrip_def)

lemma strip_keep: "x \<noteq> [] \<Longrightarrow> \<not> p (hd x) \<Longrightarrow> \<not> p (last x) \<Longrightarrow> strip p x = x"
  by (simp add: strip_def lstrip_keep rstrip_keep)

lemma token_char_simps:
  "token_char c \<Longrightarrow> \<not> str_space c"
  "token_char c \<Longrightarrow> \<not> bytes_space c"
  "token_char c \<Longrightarrow> c \<noteq> CHR ''(''"
  "token_char c \<Longrightarrow> c \<noteq> CHR '')''"
  "token_char c \<Longrightarrow> c \<noteq> CHR '' ''"
  "token_char c \<Longrightarrow> (of_char c :: nat) < 128"
  by (auto simp: token_char_def str_space_def bytes_space_def)

lemma paren_not_space:
  "\<not> bytes_space CHR ''(''" "\<not> bytes_space CHR '')''"
  "\<not> str_space CHR ''(''" "\<not> str_space CHR '')''"
  by (simp_all add: str_space_def bytes_space_def)

text \<open>The payload with its parentheses and an optional last byte, down to the groups.\<close>

lemma strip_bytes_payload:
  assumes "length sentinel \<le> 1"
  shows "butlast (strip bytes_space (CHR ''('' # x @ CHR '')'' # sentinel)) =
           CHR ''('' # x \<or>
         butlast (strip bytes_space (CHR ''('' # x @ CHR '')'' # sentinel)) =
           CHR ''('' # x @ '')''"
proof (cases sentinel)
  case Nil
  have "strip bytes_space (CHR ''('' # x @ '')'') = CHR ''('' # x @ '')''"
    by (rule strip_keep) (simp_all add: paren_not_space)
  with Nil show ?thesis
    by (simp add: butlast_append)
next
  case (Cons c cs)
  with assms have s: "sentinel = [c]" by simp
  show ?thesis
  proof (cases "bytes_space c")
    case True
    have "strip bytes_space (CHR ''('' # x @ '')'' @ [c]) =
        rstrip bytes_space ((CHR ''('' # x @ '')'') @ [c])"
      by (simp add: strip_def lstrip_def paren_not_space)
    also have "\<dots> = rstrip bytes_space (CHR ''('' # x @ '')'')"
      using True by (rule rstrip_drop)
    also have "\<dots> = CHR ''('' # x @ '')''"
      by (rule rstrip_keep) (simp_all add: paren_not_space)
    finally show ?thesis
      using s by (simp add: butlast_append)
  next
    case False
    have "strip bytes_space (CHR ''('' # x @ '')'' @ [c]) = CHR ''('' # x @ '')'' @ [c]"
      using False by (intro strip_keep) (simp_all add: paren_not_space)
    then show ?thesis
      using s by (simp add: butlast_append)
  qed
qed

lemma strip_str_payload:
  assumes "x \<noteq> []" "token_char (hd x)" "token_char (last x)"
    and "y = CHR ''('' # x \<or> y = CHR ''('' # x @ '')''"
  shows "rstrip (\<lambda>c. c = CHR '')'') (lstrip (\<lambda>c. c = CHR ''('') (strip str_space y)) = x"
proof -
  from assms(4) obtain u where y: "y = CHR ''('' # x @ u" and u: "u = [] \<or> u = '')''"
    by auto
  have "strip str_space y = y"
    unfolding y using u assms(1,3)
    by (intro strip_keep) (auto simp: paren_not_space token_char_simps)
  moreover have "lstrip (\<lambda>c. c = CHR ''('') y = x @ u"
    unfolding y using assms(1,2) by (cases x) (auto simp: lstrip_def token_char_simps)
  moreover have "rstrip (\<lambda>c. c = CHR '')'') (x @ u) = x"
  proof -
    have keep: "rstrip (\<lambda>c. c = CHR '')'') x = x"
      using assms(1,3) by (intro rstrip_keep) (auto simp: token_char_simps)
    from u show ?thesis
    proof
      assume "u = []"
      with keep show ?thesis by simp
    next
      assume "u = '')''"
      with keep show ?thesis
        using rstrip_drop [of "\<lambda>c. c = CHR '')''" "CHR '')''" x] by simp
    qed
  qed
  ultimately show ?thesis by simp
qed

lemma hd_join: "xs \<noteq> [] \<Longrightarrow> hd xs \<noteq> [] \<Longrightarrow> hd (join sep xs) = hd (hd xs)"
  by (induction sep xs rule: join.induct) simp_all

lemma join_not_Nil: "xs \<noteq> [] \<Longrightarrow> hd xs \<noteq> [] \<Longrightarrow> join sep xs \<noteq> []"
  by (induction sep xs rule: join.induct) simp_all

lemma join_not_Nil_last: "xs \<noteq> [] \<Longrightarrow> last xs \<noteq> [] \<Longrightarrow> join sep xs \<noteq> []"
  by (induction sep xs rule: join.induct) simp_all

lemma last_join: "xs \<noteq> [] \<Longrightarrow> last xs \<noteq> [] \<Longrightarrow> last (join sep xs) = last (last xs)"
proof (induction sep xs rule: join.induct)
  case (3 sep x y ys)
  then have "join sep (y # ys) \<noteq> []"
    by (intro join_not_Nil_last) simp_all
  with 3 show ?case by simp
qed simp_all

lemma set_join: "set (join sep xs) \<subseteq> set sep \<union> \<Union> (set ` set xs)"
  by (induction sep xs rule: join.induct) auto

text \<open>The text of a group between its parentheses.\<close>

lemma body_facts:
  assumes "wf_group g"
  defines "b \<equiv> join '' '' (fst g # snd g)"
  shows "b \<noteq> []" "token_char (hd b)" "token_char (last b)"
    "\<forall>c\<in>set b. token_char c \<or> c = CHR '' ''"
proof -
  from assms(1) have n: "fst g \<noteq> []" "list_all token_char (fst g)"
    and ts: "\<forall>t\<in>set (snd g). t \<noteq> [] \<and> list_all token_char t"
    by (auto simp: wf_group_def wf_token_def list_all_iff)
  show "b \<noteq> []"
    unfolding b_def using n(1) by (intro join_not_Nil) simp_all
  have "hd b = hd (fst g)"
    unfolding b_def using n(1) by (simp add: hd_join)
  with n show "token_char (hd b)"
    by (cases "fst g") simp_all
  have all: "\<forall>t\<in>set (fst g # snd g). t \<noteq> [] \<and> list_all token_char t"
    using n ts by simp
  then have l: "last (fst g # snd g) \<noteq> []" "list_all token_char (last (fst g # snd g))"
    using last_in_set [of "fst g # snd g"] by blast+
  have "last b = last (last (fst g # snd g))"
    unfolding b_def using l(1) by (intro last_join) simp_all
  with l show "token_char (last b)"
    by (metis last_in_set list_all_iff)
  show "\<forall>c\<in>set b. token_char c \<or> c = CHR '' ''"
    using set_join [of "'' ''" "fst g # snd g"] all
    unfolding b_def by (fastforce simp: list_all_iff)
qed

lemma split_body:
  assumes "wf_group g"
  shows "py_split (join '' '' (fst g # snd g)) '' '' = fst g # snd g"
proof -
  from assms have "\<forall>t\<in>set (fst g # snd g). list_all token_char t"
    by (auto simp: wf_group_def wf_token_def list_all_iff)
  then have "\<forall>t\<in>set (fst g # snd g). set t \<inter> set '' '' = {}"
    by (auto simp: list_all_iff dest: token_char_simps(5))
  then show ?thesis
    unfolding py_split_def by (intro split_join) simp_all
qed

lemma store_groups_bodies:
  "list_all wf_group gs \<Longrightarrow>
   store_groups float d (map (\<lambda>g. join '' '' (fst g # snd g)) gs) =
     Inr (foldl (\<lambda>d g. d(fst g \<mapsto> destringify float (snd g))) d gs)"
  by (induction gs arbitrary: d) (simp_all add: split_body)

lemma groups_facts:
  assumes "gs \<noteq> []" "list_all wf_group gs"
  defines "x \<equiv> join '')('' (map (\<lambda>g. join '' '' (fst g # snd g)) gs)"
  shows "x \<noteq> []" "token_char (hd x)" "token_char (last x)" "ascii x"
    "py_split x '')('' = map (\<lambda>g. join '' '' (fst g # snd g)) gs"
proof -
  let ?body = "\<lambda>g. join '' '' (fst g # snd g)"
  from assms(2) have wf: "\<And>g. g \<in> set gs \<Longrightarrow> wf_group g"
    by (simp add: list_all_iff)
  from assms(1) have first: "hd (map ?body gs) = ?body (hd gs)" "wf_group (hd gs)"
    and final: "last (map ?body gs) = ?body (last gs)" "wf_group (last gs)"
    by (simp_all add: hd_map last_map wf)
  show "x \<noteq> []"
    unfolding x_def using assms(1) first body_facts(1) [OF first(2)]
    by (intro join_not_Nil) simp_all
  have "hd x = hd (?body (hd gs))"
    unfolding x_def using assms(1) first body_facts(1) [OF first(2)]
    by (simp add: hd_join)
  then show "token_char (hd x)"
    using body_facts(2) [OF first(2)] by simp
  have "last x = last (?body (last gs))"
    unfolding x_def using assms(1) final body_facts(1) [OF final(2)]
    by (simp add: last_join)
  then show "token_char (last x)"
    using body_facts(3) [OF final(2)] by simp
  have chars: "token_char c \<or> c = CHR '' ''" if "b \<in> set (map ?body gs)" "c \<in> set b" for b c
    using that body_facts(4) wf by auto
  have "(of_char c :: nat) < 128" if "c \<in> set x" for c
  proof -
    from that set_join [of "'')(''" "map ?body gs"]
    have "c \<in> set '')('' \<union> \<Union> (set ` set (map ?body gs))"
      unfolding x_def by blast
    then consider "c = CHR '')''" | "c = CHR ''(''"
      | b where "b \<in> set (map ?body gs)" "c \<in> set b"
      by auto
    then show ?thesis
    proof cases
      case 3
      from chars [OF 3] show ?thesis
        by (auto dest: token_char_simps(6))
    qed simp_all
  qed
  then show "ascii x"
    by (simp add: ascii_def list_all_iff)
  have "\<forall>b\<in>set (map ?body gs). set b \<inter> set '')('' = {}"
    using chars by (fastforce dest: token_char_simps(3,4))
  then show "py_split x '')('' = map ?body gs"
    unfolding py_split_def x_def using assms(1) by (intro split_join) simp_all
qed

lemma parse_server_str_render:
  assumes "gs \<noteq> []" "list_all wf_group gs" "length sentinel \<le> 1"
  shows "parse_server_str float d (render gs @ sentinel) =
     Inr (foldl (\<lambda>d g. d(fst g \<mapsto> destringify float (snd g))) d gs)"
proof -
  define x where "x = join '')('' (map (\<lambda>g. join '' '' (fst g # snd g)) gs)"
  note x = groups_facts [OF assms(1,2), folded x_def]
  define y where "y = butlast (strip bytes_space (CHR ''('' # x @ CHR '')'' # sentinel))"
  have payload: "render gs @ sentinel = CHR ''('' # x @ CHR '')'' # sentinel"
    using render_join [OF assms(1)] by (simp add: x_def)
  have y: "y = CHR ''('' # x \<or> y = CHR ''('' # x @ '')''"
    unfolding y_def using assms(3) by (rule strip_bytes_payload)
  with x(4) have "ascii y"
    by (auto simp: ascii_def)
  moreover have "rstrip (\<lambda>c. c = CHR '')'') (lstrip (\<lambda>c. c = CHR ''('') (strip str_space y)) = x"
    using x(1-3) y by (rule strip_str_payload)
  ultimately show ?thesis
    using x(5) store_groups_bodies [OF assms(2)]
    by (simp add: parse_server_str_def payload y_def [symmetric])
qed

lemma foldl_update_lookup:
  "foldl (\<lambda>d g. d(fst g \<mapsto> f (snd g))) d gs n =
     (case filter (\<lambda>g. fst g = n) gs of [] \<Rightarrow> d n | h # hs \<Rightarrow> Some (f (snd (last (h # hs)))))"
  by (induction gs rule: rev_induct) (auto split: list.splits)

lemma destringify_tokens:
  assumes "list_all wf_token ts"
  shows "destringify float ts = group_value float ts"
proof -
  have tok: "destringify_str float t = token_value float t" if "wf_token t" for t
    using that by (simp add: destringify_str_def token_value_def wf_token_def)
  show ?thesis
  proof (cases ts)
    case Nil
    then show ?thesis by (simp add: destringify_def group_value_def)
  next
    case (Cons t rest)
    with assms tok show ?thesis
      by (cases rest) (simp_all add: destringify_def group_value_def list_all_iff)
  qed
qed

lemma ex_groups:
  "list_all wf_group [(''speedX'', [''42.5'']), (''track'', [''1'', ''2'', ''3'']),
      (''speedX'', [''43'']), (''name'', [''abc''])]"
  "render [(''speedX'', [''42.5'']), (''track'', [''1'', ''2'', ''3'']),
      (''speedX'', [''43'']), (''name'', [''abc''])] =
   ''(speedX 42.5)(track 1 2 3)(speedX 43)(name abc)''"
  "list_all wf_group [(''speedX'', [''42.5''])]"
  "render [(''speedX'', [''42.5''])] = ''(speedX 42.5)''"
  by (simp_all add: wf_group_def wf_token_def token_char_def str_space_def bytes_space_def
      render_def render_group_def)

lemma ex_decimal:
  "decimal ''42.5'' = Some (Fin 42.5)" "decimal ''43'' = Some (Fin 43)"
  "decimal ''1'' = Some (Fin 1)"
  "decimal ''2'' = Some (Fin 2)" "decimal ''3'' = Some (Fin 3)" "decimal ''abc'' = None"
  by (simp_all add: decimal_def)

lemma store_groups_total: "\<exists>d'. store_groups float d xs = Inr d'"
proof (induction xs arbitrary: d)
  case Nil
  show ?case by simp
next
  case (Cons i rest)
  obtain w0 ws where "py_split i '' '' = w0 # ws"
    using split_from_not_Nil [of "'' ''" "[]" i]
    by (cases "py_split i '' ''") (auto simp: py_split_def)
  with Cons.IH show ?case by simp
qed

section \<open>Properties of the decoder\<close>

text \<open>
  C8. For every message made of well-formed groups (at least one), with or without one
  last byte after them, \<open>parse_server_str\<close> succeeds, and the dictionary it returns maps
  every field name of the message to the value of the last group with that name, and
  every other name to what it held before: one token gives a scalar, two or more a list,
  and a token that does not convert stays as its string. This holds for every conversion
  \<open>float\<close>.
\<close>

theorem decode_well_formed:
  assumes "gs \<noteq> []" "list_all wf_group gs" "length sentinel \<le> 1"
  shows "\<exists>d'. parse_server_str float d (render gs @ sentinel) = Inr d' \<and>
      (\<forall>n. d' n = (case filter (\<lambda>g. fst g = n) gs of [] \<Rightarrow> d n
                   | h # hs \<Rightarrow> Some (group_value float (snd (last (h # hs))))))"
proof -
  let ?d' = "foldl (\<lambda>d g. d(fst g \<mapsto> destringify float (snd g))) d gs"
  have "?d' n = (case filter (\<lambda>g. fst g = n) gs of [] \<Rightarrow> d n
                   | h # hs \<Rightarrow> Some (group_value float (snd (last (h # hs)))))" for n
  proof (cases "filter (\<lambda>g. fst g = n) gs")
    case Nil
    then show ?thesis
      using foldl_update_lookup [of "destringify float" d gs n] by simp
  next
    case (Cons h hs)
    then have "last (h # hs) \<in> set (filter (\<lambda>g. fst g = n) gs)"
      using last_in_set [of "h # hs"] by simp
    then have "last (h # hs) \<in> set gs"
      by simp
    with assms(2) have "list_all wf_token (snd (last (h # hs)))"
      by (simp add: list_all_iff wf_group_def)
    then show ?thesis
      using foldl_update_lookup [of "destringify float" d gs n] Cons
      by (simp add: destringify_tokens)
  qed
  with parse_server_str_render [OF assms, of float d] show ?thesis
    by blast
qed

theorem decode_well_formed_witness:
  "(\<exists>d'. parse_server_str decimal Map.empty
            (''(speedX 42.5)(track 1 2 3)(speedX 43)(name abc)'' @ [CHR 0x00]) = Inr d' \<and>
        d' ''speedX'' = Some (Num (Fin 43)) \<and>
        d' ''track'' = Some (Lst [Num (Fin 1), Num (Fin 2), Num (Fin 3)]) \<and>
        d' ''name'' = Some (Str ''abc'') \<and> d' ''rpm'' = None) \<and>
   (\<exists>d'. parse_server_str decimal Map.empty ''(speedX 42.5)'' = Inr d' \<and>
        d' ''speedX'' = Some (Num (Fin 42.5)))"
proof -
  let ?gs = "[(''speedX'', [''42.5'']), (''track'', [''1'', ''2'', ''3'']),
      (''speedX'', [''43'']), (''name'', [''abc''])]"
  from decode_well_formed [of ?gs "[CHR 0x00]" decimal Map.empty]
  obtain d' where d': "parse_server_str decimal Map.empty
            (''(speedX 42.5)(track 1 2 3)(speedX 43)(name abc)'' @ [CHR 0x00]) = Inr d'"
    and look: "\<And>n. d' n = (case filter (\<lambda>g. fst g = n) ?gs of [] \<Rightarrow> Map.empty n
                   | h # hs \<Rightarrow> Some (group_value decimal (snd (last (h # hs)))))"
    unfolding ex_groups(2) using ex_groups(1) by auto
  have "d' ''speedX'' = Some (Num (Fin 43))"
    "d' ''track'' = Some (Lst [Num (Fin 1), Num (Fin 2), Num (Fin 3)])"
    "d' ''name'' = Some (Str ''abc'')" "d' ''rpm'' = None"
    unfolding look by (simp_all add: group_value_def token_value_def ex_decimal)
  with d' have first: "\<exists>d'. parse_server_str decimal Map.empty
            (''(speedX 42.5)(track 1 2 3)(speedX 43)(name abc)'' @ [CHR 0x00]) = Inr d' \<and>
        d' ''speedX'' = Some (Num (Fin 43)) \<and>
        d' ''track'' = Some (Lst [Num (Fin 1), Num (Fin 2), Num (Fin 3)]) \<and>
        d' ''name'' = Some (Str ''abc'') \<and> d' ''rpm'' = None"
    by blast
  from decode_well_formed [of "[(''speedX'', [''42.5''])]" "[]" decimal Map.empty]
  obtain e where e: "parse_server_str decimal Map.empty ''(speedX 42.5)'' = Inr e"
    and look2: "\<And>n. e n = (case filter (\<lambda>g. fst g = n) [(''speedX'', [''42.5''])] of
                  [] \<Rightarrow> Map.empty n
                   | h # hs \<Rightarrow> Some (group_value decimal (snd (last (h # hs)))))"
    unfolding ex_groups(4) using ex_groups(3) by auto
  have "e ''speedX'' = Some (Num (Fin 42.5))"
    unfolding look2 by (simp add: group_value_def token_value_def ex_decimal)
  with e first show ?thesis by blast
qed

text \<open>
  C9. The claim: on a payload that is empty after trimming, or that does not parse into
  well-formed groups, the decoder fails with a \<open>ProtocolError\<close>. The code has no such
  error and checks nothing: the empty payload gives one group, the empty text, and stores
  the empty list under the empty name; the payload \<open>garbage\<close> loses its last byte and
  stores the empty list under \<open>garbag\<close>.
\<close>

theorem decode_empty_payload:
  "parse_server_str decimal Map.empty [] = Inr [[] \<mapsto> Lst []] \<and>
   parse_server_str decimal Map.empty ''garbage'' = Inr [''garbag'' \<mapsto> Lst []]"
  by (simp add: parse_server_str_def strip_def lstrip_def rstrip_def ascii_def py_split_def
      bytes_space_def str_space_def destringify_def)

text \<open>
  C9, amended: for every payload whose bytes, after trimming and without the last one,
  are ASCII, the empty payload and the payloads that are not well-formed groups included,
  \<open>parse_server_str\<close> raises nothing and returns a dictionary.
\<close>

theorem decode_never_fails:
  assumes "ascii (butlast (strip bytes_space payload))"
  shows "\<exists>d'. parse_server_str float d payload = Inr d'"
  using assms store_groups_total by (simp add: parse_server_str_def)

theorem decode_never_fails_witness:
  "\<exists>d'. parse_server_str decimal Map.empty ''  '' = Inr d'"
  using decode_never_fails [of "''  ''" decimal Map.empty]
  by (simp add: strip_def lstrip_def rstrip_def ascii_def bytes_space_def)

end
